theory Spec2Isabelle
  imports Complex_Main
begin

section \<open>Python strings\<close>

text \<open>
  A Python \<open>str\<close> is modelled as a \<open>string\<close>: the list of the bytes of its UTF-8
  encoding. \<open>str.lower\<close>, \<open>str.upper\<close>, \<open>str.strip\<close> and \<open>str.split\<close> are modelled on
  the ASCII range, where they map the letters \<open>A-Z\<close> and \<open>a-z\<close> and treat the ten ASCII
  characters for which \<open>str.isspace\<close> holds (codes 9-13 and 28-32) as whitespace; a byte
  of a multi-byte character is left alone.
\<close>

definition py_lower_char :: "char \<Rightarrow> char" where
  "py_lower_char c =
     (let n = (of_char c :: nat) in if 65 \<le> n \<and> n \<le> 90 then char_of (n + 32) else c)"


definition py_lower :: "string \<Rightarrow> string" where
  "py_lower s = map py_lower_char s"


definition py_isspace :: "char \<Rightarrow> bool" where
  "py_isspace c = (let n = (of_char c :: nat) in (9 \<le> n \<and> n \<le> 13) \<or> (28 \<le> n \<and> n \<le> 32))"

definition py_lstrip :: "string \<Rightarrow> string" where
  "py_lstrip s = dropWhile py_isspace s"

definition py_rstrip :: "string \<Rightarrow> string" where
  "py_rstrip s = rev (dropWhile py_isspace (rev s))"

definition py_strip :: "string \<Rightarrow> string" where
  "py_strip s = py_rstrip (py_lstrip s)"

text \<open>\<open>s.startswith(p)\<close>\<close>

definition startswith :: "string \<Rightarrow> string \<Rightarrow> bool" where
  "startswith s p = (take (length p) s = p)"




section \<open>Sentiment tool (02_tools_and_functions.py)\<close>







section \<open>Memory manager (09_memory_context.py)\<close>

text \<open>
  The memory is whatever \<open>json.load\<close> returned or the fresh dictionary, so it is a JSON
  value. A Python \<open>dict\<close> keeps its keys in insertion order: an association list with one
  entry per key.
\<close>

datatype json =
    JNull
  | JBool bool
  | JInt int
  | JFloat real
  | JStr string
  | JList "json list"
  | JObj "(string \<times> json) list"

datatype py_error = KeyError | TypeError | AttributeError | ValueError


text \<open>\<open>obj[k]\<close>: KeyError on a missing key, TypeError when \<open>obj\<close> is no dict.\<close>

fun getitem :: "json \<Rightarrow> string \<Rightarrow> py_error + json" where
  "getitem (JObj kvs) k = (case map_of kvs k of None \<Rightarrow> Inl KeyError | Some v \<Rightarrow> Inr v)"
| "getitem _ k = Inl TypeError"



text \<open>\<open>xs[-n:]\<close> for \<open>n > 0\<close>: the last \<open>n\<close> elements, or all of them.\<close>

definition py_last :: "nat \<Rightarrow> 'a list \<Rightarrow> 'a list" where
  "py_last n xs = drop (length xs - n) xs"


text \<open>Sequencing of steps that may raise.\<close>

fun and_then :: "'e + 'a \<Rightarrow> ('a \<Rightarrow> 'e + 'b) \<Rightarrow> 'e + 'b" where
  "and_then (Inl e) f = Inl e"
| "and_then (Inr x) f = f x"

text \<open>
  The file system holds regular files, read and written as text: a path has a content or
  does not exist. Failures of the operating system (permissions, a directory in the way)
  are outside the model. A \<open>Path\<close> is its string.
\<close>

type_synonym filesystem = "string \<rightharpoonup> string"

record manager =
  user_id :: string
  memory_file :: string
  memory :: json

text \<open>
  \<open>MEMORY_DIR / f"{user_id}_memory.json"\<close>: joining with an absolute path gives that
  path.
\<close>

definition memory_path :: "string \<Rightarrow> string" where
  "memory_path uid =
     (let name = uid @ ''_memory.json''
      in if startswith name ''/'' then name else ''agent_memory/'' @ name)"

text \<open>\<open>s.rfind(c)\<close> for a single character: the last index of \<open>c\<close>, or \<open>-1\<close>.\<close>

definition rfind :: "char \<Rightarrow> string \<Rightarrow> int" where
  "rfind c s =
     (if c \<in> set s then int (length s) - 1 - int (length (takeWhile (\<lambda>x. x \<noteq> c) (rev s)))
      else - 1)"

text \<open>
  \<open>Path.name\<close>, \<open>Path.suffix\<close> and \<open>Path.with_suffix\<close> of pathlib: the name is the final
  component, the suffix starts at the last dot of the name unless that dot is its first
  or last character, and a path with an empty name has no suffix to replace.
\<close>

definition path_name :: "string \<Rightarrow> string" where
  "path_name p = rev (takeWhile (\<lambda>x. x \<noteq> CHR ''/'') (rev p))"

definition path_suffix :: "string \<Rightarrow> string" where
  "path_suffix p =
     (let name = path_name p; i = rfind CHR ''.'' name
      in if 0 < i \<and> i < int (length name) - 1 then drop (nat i) name else [])"

definition with_suffix :: "string \<Rightarrow> string \<Rightarrow> py_error + string" where
  "with_suffix p new_suffix =
     (if path_name p = [] then Inl ValueError
      else Inr (take (length p - length (path_suffix p)) p @ new_suffix))"

text \<open>
  The dictionary of a new user; \<open>now\<close> is what \<open>datetime.now().isoformat()\<close> returns.
\<close>

definition fresh_memory :: "string \<Rightarrow> string \<Rightarrow> json" where
  "fresh_memory uid now =
     JObj [(''user_id'', JStr uid),
           (''preferences'', JObj []),
           (''conversation_history'', JList []),
           (''facts'', JObj []),
           (''created_at'', JStr now),
           (''last_interaction'', JNull)]"

text \<open>
  \<open>load_memory\<close>. \<open>loads\<close> is \<open>json.load\<close> on the text of the file: \<open>None\<close> when it raises
  \<open>JSONDecodeError\<close> (or another \<open>ValueError\<close>). The result is the memory and the file
  system afterwards.
\<close>

definition load_memory ::
  "(string \<Rightarrow> json option) \<Rightarrow> string \<Rightarrow> string \<Rightarrow> string \<Rightarrow> filesystem
     \<Rightarrow> py_error + (json \<times> filesystem)" where
  "load_memory loads now uid file fs =
     (case fs file of
        Some content \<Rightarrow>
          (case loads content of
             Some parsed \<Rightarrow> Inr (parsed, fs)
           | None \<Rightarrow>
               and_then (with_suffix file ''.json.backup'')
                 (\<lambda>backup_file. Inr (fresh_memory uid now, (fs(file := None))(backup_file \<mapsto> content))))
      | None \<Rightarrow> Inr (fresh_memory uid now, fs))"

text \<open>\<open>MemoryManager(user_id)\<close>\<close>

definition new_manager ::
  "(string \<Rightarrow> json option) \<Rightarrow> string \<Rightarrow> string \<Rightarrow> filesystem
     \<Rightarrow> py_error + (manager \<times> filesystem)" where
  "new_manager loads now uid fs =
     and_then (load_memory loads now uid (memory_path uid) fs)
       (\<lambda>(mem, fs'). Inr (\<lparr>user_id = uid, memory_file = memory_path uid, memory = mem\<rparr>, fs'))"






section \<open>Database agent (13_database_agent.py)\<close>

























section \<open>Code execution tool (19_code_execution.py)\<close>

















section \<open>Chat endpoint (04_fastapi_chatbot.py)\<close>

text \<open>
  \<open>JSONResponse(content, status_code)\<close>, and a session of the \<open>sessions\<close> dictionary.
  The agent is of the framework: \<open>new_agent\<close> is what \<open>Agent(system_prompt=...)\<close> does,
  an agent or the text of the exception it raises; \<open>call_agent a message\<close> is the agent
  after the call, with the text of the exception the call raises or its response, \<open>None\<close>
  or \<open>Some\<close> of \<open>str(response)\<close>.
\<close>

record http_response =
  status_code :: nat
  json_content :: json

record 'a session =
  agent :: 'a
  created_at :: string

text \<open>The block that gets or creates the session; \<open>now\<close> is \<open>datetime.now()\<close>.\<close>

definition get_or_create ::
  "string + 'a \<Rightarrow> string \<Rightarrow> string \<Rightarrow> (string \<rightharpoonup> 'a session) \<Rightarrow> string + (string \<rightharpoonup> 'a session)" where
  "get_or_create new_agent now session_id sessions =
     (if session_id \<notin> dom sessions
      then (case new_agent of
              Inl e \<Rightarrow> Inl e
            | Inr a \<Rightarrow> Inr (sessions(session_id \<mapsto> \<lparr>agent = a, created_at = now\<rparr>)))
      else Inr sessions)"

definition error_response :: "string \<Rightarrow> http_response" where
  "error_response e = \<lparr>status_code = 500, json_content = JObj [(''error'', JStr e)]\<rparr>"

definition response_text :: "string option \<Rightarrow> string" where
  "response_text response =
     (case response of
        Some s \<Rightarrow> s
      | None \<Rightarrow> ''I apologize, but I couldn'' @ [CHR 0x27] @ ''t generate a response.'')"

text \<open>
  \<open>chat\<close> on a validated request with its message and session id: the response and the
  \<open>sessions\<close> dictionary afterwards. Looking up a missing key raises \<open>KeyError\<close>, whose
  text is the key in quotes.
\<close>

definition chat ::
  "string + 'a \<Rightarrow> ('a \<Rightarrow> string \<Rightarrow> 'a \<times> (string + string option)) \<Rightarrow> string \<Rightarrow> string \<times> string
     \<Rightarrow> (string \<rightharpoonup> 'a session) \<Rightarrow> http_response \<times> (string \<rightharpoonup> 'a session)" where
  "chat new_agent call_agent now chat_message sessions =
     (case chat_message of (message, session_id) \<Rightarrow>
        (case get_or_create new_agent now session_id sessions of
           Inl e \<Rightarrow> (error_response e, sessions)
         | Inr sessions1 \<Rightarrow>
             (case sessions1 session_id of
                None \<Rightarrow> (error_response ([CHR 0x27] @ session_id @ [CHR 0x27]), sessions1)
              | Some s \<Rightarrow>
                  (case call_agent (agent s) message of
                     (a, Inl e) \<Rightarrow> (error_response e, sessions1(session_id \<mapsto> s\<lparr>agent := a\<rparr>))
                   | (a, Inr response) \<Rightarrow>
                       (\<lparr>status_code = 200,
                         json_content = JObj [(''response'', JStr (response_text response)),
                                              (''session_id'', JStr session_id)]\<rparr>,
                        sessions1(session_id \<mapsto> s\<lparr>agent := a\<rparr>))))))"

text \<open>
  The reading of the specification: a body that is the JSON object with the one key
  \<open>response\<close> and a string.
\<close>

fun is_response_object :: "json \<Rightarrow> bool" where
  "is_response_object (JObj [(k, JStr r)]) = (k = ''response'')"
| "is_response_object _ = False"

text \<open>
  An agent for examples: its state is the list of the messages it has seen, and it
  answers with the message it was given.
\<close>

definition echo_agent :: "string list \<Rightarrow> string \<Rightarrow> string list \<times> (string + string option)" where
  "echo_agent seen message = (seen @ [message], Inr (Some (''You said: '' @ message)))"

section \<open>RAG pipeline (12_rag_pipeline.py)\<close>

text \<open>
  \<open>xs[i:j]\<close> with integer bounds: a negative bound counts from the end, and a bound
  outside the list is clipped.
\<close>

definition slice_bound :: "nat \<Rightarrow> int \<Rightarrow> nat" where
  "slice_bound n i = (if i < 0 then nat (max 0 (int n + i)) else min (nat i) n)"

definition py_slice :: "'a list \<Rightarrow> int \<Rightarrow> int \<Rightarrow> 'a list" where
  "py_slice xs i j = drop (slice_bound (length xs) i) (take (slice_bound (length xs) j) xs)"

subsection \<open>DocumentChunker\<close>

record chunk =
  c_id :: string
  c_text :: string
  c_start :: int
  c_end :: int
  c_length :: nat

text \<open>
  One pass through the body of the \<open>while\<close> loop of \<open>chunk_text\<close>, from the start
  position and the chunks so far to the next start position and the chunks then.
  \<open>md5\<close> is \<open>hashlib.md5(s.encode()).hexdigest()\<close>.
\<close>

definition chunk_step ::
  "(string \<Rightarrow> string) \<Rightarrow> string \<Rightarrow> int \<Rightarrow> int \<Rightarrow> int \<times> chunk list \<Rightarrow> int \<times> chunk list" where
  "chunk_step md5 text chunk_size overlap st =
     (case st of (start, chunks) \<Rightarrow>
        (let end0 = start + chunk_size;
             stop =
               (if end0 < int (length text)
                then (let last_period = rfind CHR ''.'' (py_slice text start end0);
                          last_newline = rfind CHR 0x0A (py_slice text start end0);
                          boundary = max last_period last_newline
                      in if boundary > 0 then start + boundary + 1 else end0)
                else end0);
             piece = py_strip (py_slice text start stop);
             chunks' =
               (if piece \<noteq> []
                then chunks @ [\<lparr>c_id = take 8 (md5 piece), c_text = piece,
                                c_start = start, c_end = stop, c_length = length piece\<rparr>]
                else chunks)
         in (if stop < int (length text) then stop - overlap else stop, chunks')))"

text \<open>The loop: it returns the chunks when the start position has passed the text.\<close>

partial_function (option) chunk_loop ::
  "(string \<Rightarrow> string) \<Rightarrow> string \<Rightarrow> int \<Rightarrow> int \<Rightarrow> int \<times> chunk list \<Rightarrow> chunk list option" where
  "chunk_loop md5 text chunk_size overlap st =
     (if fst st < int (length text)
      then chunk_loop md5 text chunk_size overlap (chunk_step md5 text chunk_size overlap st)
      else Some (snd st))"

text \<open>\<open>DocumentChunker.chunk_text\<close>; \<open>None\<close> when the loop does not end.\<close>

definition chunk_text ::
  "(string \<Rightarrow> string) \<Rightarrow> string \<Rightarrow> int \<Rightarrow> int \<Rightarrow> chunk list option" where
  "chunk_text md5 text chunk_size overlap = chunk_loop md5 text chunk_size overlap (0, [])"

text \<open>
  A text of 501 characters whose only sentence end is the 50th character: 49 letters, a
  full stop, 451 letters.
\<close>

definition stuck_text :: string where
  "stuck_text = replicate 49 CHR ''a'' @ ''.'' @ replicate 451 CHR ''a''"

subsection \<open>SimpleVectorStore\<close>



















section \<open>Facts about strings\<close>







section \<open>Sentiment tool: the claim\<close>


section \<open>Memory manager: conversation history\<close>


lemma py_last_length: "length (py_last n xs) = min n (length xs)"
  unfolding py_last_def by auto







section \<open>Memory manager: loading\<close>

lemma path_name_memory_file:
  "\<exists>n0. path_name (d @ uid @ ''_memory.json'') = n0 @ ''_memory.json''"
proof -
  let ?P = "\<lambda>x. x \<noteq> CHR ''/''"
  have "rev (d @ uid @ ''_memory.json'') = ''nosj.yromem_'' @ rev (d @ uid)" by simp
  moreover have "takeWhile ?P (''nosj.yromem_'' @ zs) = ''nosj.yromem_'' @ takeWhile ?P zs" for zs
    by simp
  ultimately have "path_name (d @ uid @ ''_memory.json'')
        = rev (''nosj.yromem_'' @ takeWhile ?P (rev (d @ uid)))"
    unfolding path_name_def by presburger
  then have "path_name (d @ uid @ ''_memory.json'')
        = rev (takeWhile ?P (rev (d @ uid))) @ ''_memory.json''"
    by simp
  then show ?thesis by blast
qed

lemma path_suffix_json:
  assumes "path_name p = n0 @ ''_memory.json''"
  shows "path_suffix p = ''.json''"
proof -
  let ?P = "\<lambda>x. x \<noteq> CHR ''.''"
  have "rev (path_name p) = ''nosj.'' @ rev (n0 @ ''_memory'')"
    using assms by simp
  moreover have "takeWhile ?P (''nosj.'' @ zs) = ''nosj''" for zs by simp
  ultimately have "takeWhile ?P (rev (path_name p)) = ''nosj''" by presburger
  then have "length (takeWhile ?P (rev (path_name p))) = 4" by simp
  moreover have "CHR ''.'' \<in> set (path_name p)" using assms by simp
  ultimately have r: "rfind CHR ''.'' (path_name p) = int (length (path_name p)) - 5"
    unfolding rfind_def by simp
  have l: "length (path_name p) = length n0 + 12" using assms by simp
  have "nat (int (length (path_name p)) - 5) = length n0 + 7" using l by simp
  then have "drop (nat (int (length (path_name p)) - 5)) (path_name p) = ''.json''"
    using assms by simp
  then show ?thesis
    unfolding path_suffix_def Let_def r using l by simp
qed

lemma with_suffix_memory_path:
  "with_suffix (memory_path uid) ''.json.backup''
     = Inr (take (length (memory_path uid) - 5) (memory_path uid) @ ''.json.backup'')"
proof -
  obtain d where d: "memory_path uid = d @ uid @ ''_memory.json''"
    unfolding memory_path_def Let_def by (metis append_Nil)
  obtain n0 where n: "path_name (memory_path uid) = n0 @ ''_memory.json''"
    using path_name_memory_file [of d uid] d by auto
  have "path_suffix (memory_path uid) = ''.json''" by (rule path_suffix_json [OF n])
  then have "length (path_suffix (memory_path uid)) = 5" by simp
  moreover have "path_name (memory_path uid) \<noteq> []" using n by simp
  ultimately show ?thesis unfolding with_suffix_def by simp
qed

lemma memory_path_stem:
  "memory_path uid = take (length (memory_path uid) - 5) (memory_path uid) @ ''.json''"
  unfolding memory_path_def Let_def by simp

text \<open>
  Claim C6. \<open>load_memory\<close> on the memory file of a user: when the file exists and
  \<open>json.load\<close> parses it, the parsed value is returned and the file system is as before;
  when the file exists and \<open>json.load\<close> raises a decode error, the file is renamed to
  the same path with \<open>.json.backup\<close> in place of \<open>.json\<close> and the fresh dictionary is
  returned; when the file does not exist, the fresh dictionary is returned and the file
  system is as before. The fresh dictionary has empty preferences, facts and
  conversation history and \<open>None\<close> as last interaction.
\<close>

theorem load_memory_cases:
  "(fs (memory_path uid) = Some content \<and> loads content = Some parsed
      \<longrightarrow> load_memory loads now uid (memory_path uid) fs = Inr (parsed, fs))
   \<and> (fs (memory_path uid) = Some content \<and> loads content = None
      \<longrightarrow> load_memory loads now uid (memory_path uid) fs
           = Inr (fresh_memory uid now,
                  (fs(memory_path uid := None))
                    (take (length (memory_path uid) - 5) (memory_path uid) @ ''.json.backup'' \<mapsto> content)))
   \<and> (fs (memory_path uid) = None
      \<longrightarrow> load_memory loads now uid (memory_path uid) fs = Inr (fresh_memory uid now, fs))
   \<and> memory_path uid = take (length (memory_path uid) - 5) (memory_path uid) @ ''.json''
   \<and> getitem (fresh_memory uid now) ''preferences'' = Inr (JObj [])
   \<and> getitem (fresh_memory uid now) ''facts'' = Inr (JObj [])
   \<and> getitem (fresh_memory uid now) ''conversation_history'' = Inr (JList [])
   \<and> getitem (fresh_memory uid now) ''last_interaction'' = Inr JNull"
proof -
  have "load_memory loads now uid (memory_path uid) fs = Inr (parsed, fs)"
    if "fs (memory_path uid) = Some content" "loads content = Some parsed"
    using that unfolding load_memory_def by simp
  moreover have "load_memory loads now uid (memory_path uid) fs
           = Inr (fresh_memory uid now,
                  (fs(memory_path uid := None))
                    (take (length (memory_path uid) - 5) (memory_path uid) @ ''.json.backup'' \<mapsto> content))"
    if "fs (memory_path uid) = Some content" "loads content = None"
    using that unfolding load_memory_def by (simp add: with_suffix_memory_path)
  moreover have "load_memory loads now uid (memory_path uid) fs = Inr (fresh_memory uid now, fs)"
    if "fs (memory_path uid) = None"
    using that unfolding load_memory_def by simp
  moreover have "getitem (fresh_memory uid now) ''preferences'' = Inr (JObj [])"
    "getitem (fresh_memory uid now) ''facts'' = Inr (JObj [])"
    "getitem (fresh_memory uid now) ''conversation_history'' = Inr (JList [])"
    "getitem (fresh_memory uid now) ''last_interaction'' = Inr JNull"
    unfolding fresh_memory_def by simp_all
  ultimately show ?thesis using memory_path_stem [of uid] by blast
qed


theorem load_memory_cases_witness:
  "load_memory (\<lambda>s. if s = ''{}'' then Some (JObj []) else None) ''t'' ''alice''
       (memory_path ''alice'') [memory_path ''alice'' \<mapsto> ''{}'']
     = Inr (JObj [], [memory_path ''alice'' \<mapsto> ''{}''])
   \<and> load_memory (\<lambda>s. if s = ''{}'' then Some (JObj []) else None) ''t'' ''alice''
       (memory_path ''alice'') [memory_path ''alice'' \<mapsto> ''{oops'']
     = Inr (fresh_memory ''alice'' ''t'', [''agent_memory/alice_memory.json.backup'' \<mapsto> ''{oops''])
   \<and> load_memory (\<lambda>s. if s = ''{}'' then Some (JObj []) else None) ''t'' ''alice''
       (memory_path ''alice'') Map.empty
     = Inr (fresh_memory ''alice'' ''t'', Map.empty)"
proof -
  let ?L = "\<lambda>s. if s = ''{}'' then Some (JObj []) else None"
  have p: "memory_path ''alice'' = ''agent_memory/alice_memory.json''"
    by (simp add: memory_path_def startswith_def)
  have a: "load_memory ?L ''t'' ''alice'' (memory_path ''alice'') [memory_path ''alice'' \<mapsto> ''{}'']
     = Inr (JObj [], [memory_path ''alice'' \<mapsto> ''{}''])"
    using load_memory_cases
      [where fs = "[memory_path ''alice'' \<mapsto> ''{}'']" and uid = "''alice''" and content = "''{}''"
         and loads = ?L and parsed = "JObj []" and now = "''t''"]
    by simp
  have b: "load_memory ?L ''t'' ''alice'' (memory_path ''alice'') [memory_path ''alice'' \<mapsto> ''{oops'']
     = Inr (fresh_memory ''alice'' ''t'', [''agent_memory/alice_memory.json.backup'' \<mapsto> ''{oops''])"
    using load_memory_cases
      [where fs = "[memory_path ''alice'' \<mapsto> ''{oops'']" and uid = "''alice''" and content = "''{oops''"
         and loads = ?L and now = "''t''"]
    by (simp add: p)
  have c: "load_memory ?L ''t'' ''alice'' (memory_path ''alice'') Map.empty
     = Inr (fresh_memory ''alice'' ''t'', Map.empty)"
    using load_memory_cases
      [where fs = Map.empty and uid = "''alice''" and loads = ?L and now = "''t''"]
    by simp
  show ?thesis using a b c by blast
qed

section \<open>Database agent: setting up the tables\<close>












section \<open>Database agent: the query tool\<close>










section \<open>Code execution tool: the denylist\<close>









section \<open>Chat endpoint: the response\<close>

lemma get_or_create_has_session:
  assumes "get_or_create new_agent now session_id sessions = Inr sessions_now"
  shows "\<exists>s. sessions_now session_id = Some s"
  using assms unfolding get_or_create_def
  by (cases new_agent) (auto split: if_splits)

text \<open>
  The success body has two keys: beside \<open>response\<close> it returns the session id of the
  request, so it is not the object with the one key \<open>response\<close>.
\<close>

theorem chat_response_only_counterexample:
  "status_code (fst (chat (Inr []) echo_agent ''2025-01-01'' (''hi'', ''s1'') Map.empty)) = 200
   \<and> json_content (fst (chat (Inr []) echo_agent ''2025-01-01'' (''hi'', ''s1'') Map.empty))
       = JObj [(''response'', JStr ''You said: hi''), (''session_id'', JStr ''s1'')]
   \<and> \<not> is_response_object (json_content (fst (chat (Inr []) echo_agent ''2025-01-01'' (''hi'', ''s1'') Map.empty)))"
  by (simp add: chat_def get_or_create_def echo_agent_def response_text_def)

text \<open>
  Claim C7, as amended. For every request with a message and a session id, the success
  (status 200) response body is the JSON object with the keys \<open>response\<close> (a string) and
  \<open>session_id\<close> (the session id of the request); when creating the agent of a new
  session or calling the agent raises an exception, the response has status 500 and the
  body \<open>{"error": str(e)}\<close>. There is no other response.
\<close>

theorem chat_response:
  "(get_or_create new_agent now session_id sessions = Inl e
      \<longrightarrow> fst (chat new_agent call_agent now (message, session_id) sessions)
            = \<lparr>status_code = 500, json_content = JObj [(''error'', JStr e)]\<rparr>)
   \<and> (get_or_create new_agent now session_id sessions = Inr sessions_now
        \<and> sessions_now session_id = Some s \<and> snd (call_agent (agent s) message) = Inl e
      \<longrightarrow> fst (chat new_agent call_agent now (message, session_id) sessions)
            = \<lparr>status_code = 500, json_content = JObj [(''error'', JStr e)]\<rparr>)
   \<and> (get_or_create new_agent now session_id sessions = Inr sessions_now
        \<and> sessions_now session_id = Some s \<and> snd (call_agent (agent s) message) = Inr response
      \<longrightarrow> fst (chat new_agent call_agent now (message, session_id) sessions)
            = \<lparr>status_code = 200,
                json_content = JObj [(''response'', JStr (response_text response)),
                                     (''session_id'', JStr session_id)]\<rparr>)
   \<and> ((\<exists>t. fst (chat new_agent call_agent now (message, session_id) sessions)
            = \<lparr>status_code = 200,
                json_content = JObj [(''response'', JStr t), (''session_id'', JStr session_id)]\<rparr>)
      \<or> (\<exists>e. fst (chat new_agent call_agent now (message, session_id) sessions)
            = \<lparr>status_code = 500, json_content = JObj [(''error'', JStr e)]\<rparr>))"
proof -
  let ?r = "fst (chat new_agent call_agent now (message, session_id) sessions)"
  have a: "?r = \<lparr>status_code = 500, json_content = JObj [(''error'', JStr e)]\<rparr>"
    if "get_or_create new_agent now session_id sessions = Inl e" for e
    using that unfolding chat_def error_response_def by simp
  have b: "?r = \<lparr>status_code = 500, json_content = JObj [(''error'', JStr e)]\<rparr>"
    if "get_or_create new_agent now session_id sessions = Inr sessions_now"
      "sessions_now session_id = Some s" "snd (call_agent (agent s) message) = Inl e" for sessions_now s e
    using that unfolding chat_def error_response_def
    by (cases "call_agent (agent s) message") simp
  have c: "?r = \<lparr>status_code = 200,
                json_content = JObj [(''response'', JStr (response_text response)),
                                     (''session_id'', JStr session_id)]\<rparr>"
    if "get_or_create new_agent now session_id sessions = Inr sessions_now"
      "sessions_now session_id = Some s" "snd (call_agent (agent s) message) = Inr response"
    for sessions_now s response
    using that unfolding chat_def
    by (cases "call_agent (agent s) message") simp
  have d: "(\<exists>t. ?r = \<lparr>status_code = 200,
                json_content = JObj [(''response'', JStr t), (''session_id'', JStr session_id)]\<rparr>)
      \<or> (\<exists>e. ?r = \<lparr>status_code = 500, json_content = JObj [(''error'', JStr e)]\<rparr>)"
  proof (cases "get_or_create new_agent now session_id sessions")
    case (Inl e)
    then show ?thesis using a by blast
  next
    case (Inr sessions_now)
    then obtain s where s: "sessions_now session_id = Some s"
      using get_or_create_has_session by blast
    show ?thesis
    proof (cases "snd (call_agent (agent s) message)")
      case (Inl e)
      then show ?thesis using b [OF Inr s] by blast
    next
      case inr: (Inr response)
      then show ?thesis using c [OF Inr s] by blast
    qed
  qed
  show ?thesis using a b c d by blast
qed

theorem chat_response_witness:
  "fst (chat (Inr []) echo_agent ''2025-01-01'' (''hi'', ''s1'') Map.empty)
     = \<lparr>status_code = 200,
         json_content = JObj [(''response'', JStr ''You said: hi''), (''session_id'', JStr ''s1'')]\<rparr>
   \<and> fst (chat (Inr []) (\<lambda>(a :: string list) m. (a, Inl ''model unavailable'')) ''2025-01-01'' (''hi'', ''s1'') Map.empty)
     = \<lparr>status_code = 500, json_content = JObj [(''error'', JStr ''model unavailable'')]\<rparr>
   \<and> fst (chat (Inl ''no credentials'') echo_agent ''2025-01-01'' (''hi'', ''s1'') Map.empty)
     = \<lparr>status_code = 500, json_content = JObj [(''error'', JStr ''no credentials'')]\<rparr>"
proof -
  let ?s = "\<lparr>agent = [] :: string list, created_at = ''2025-01-01''\<rparr>"
  have g: "get_or_create (Inr []) ''2025-01-01'' ''s1'' Map.empty = Inr [''s1'' \<mapsto> ?s]"
    unfolding get_or_create_def by simp
  have g': "get_or_create (Inl ''no credentials'' :: string + string list) ''2025-01-01'' ''s1'' Map.empty
              = Inl ''no credentials''"
    unfolding get_or_create_def by simp
  have 1: "fst (chat (Inr []) echo_agent ''2025-01-01'' (''hi'', ''s1'') Map.empty)
     = \<lparr>status_code = 200,
         json_content = JObj [(''response'', JStr ''You said: hi''), (''session_id'', JStr ''s1'')]\<rparr>"
    using g chat_response
      [where new_agent = "Inr []" and call_agent = echo_agent and now = "''2025-01-01''"
         and session_id = "''s1''" and sessions = Map.empty and message = "''hi''"
         and sessions_now = "[''s1'' \<mapsto> ?s]" and s = ?s and response = "Some ''You said: hi''"]
    by (simp add: echo_agent_def response_text_def)
  have 2: "fst (chat (Inr []) (\<lambda>(a :: string list) m. (a, Inl ''model unavailable'')) ''2025-01-01'' (''hi'', ''s1'') Map.empty)
     = \<lparr>status_code = 500, json_content = JObj [(''error'', JStr ''model unavailable'')]\<rparr>"
    using g chat_response
      [where new_agent = "Inr []" and call_agent = "\<lambda>(a :: string list) m. (a, Inl ''model unavailable'')"
         and now = "''2025-01-01''"
         and session_id = "''s1''" and sessions = Map.empty and message = "''hi''"
         and sessions_now = "[''s1'' \<mapsto> ?s]" and s = ?s and e = "''model unavailable''"]
    by simp
  have 3: "fst (chat (Inl ''no credentials'') echo_agent ''2025-01-01'' (''hi'', ''s1'') Map.empty)
     = \<lparr>status_code = 500, json_content = JObj [(''error'', JStr ''no credentials'')]\<rparr>"
    using g' chat_response
      [where new_agent = "Inl ''no credentials''" and call_agent = echo_agent and now = "''2025-01-01''"
         and session_id = "''s1''" and sessions = Map.empty and message = "''hi''"
         and e = "''no credentials''"]
    by simp
  show ?thesis using 1 2 3 by blast
qed

section \<open>DocumentChunker: a text on which the loop does not end\<close>

lemma takeWhile_replicate_append:
  "P a \<Longrightarrow> takeWhile P (replicate n a @ ys) = replicate n a @ takeWhile P ys"
  by (induction n) auto

lemma stuck_window:
  "py_slice stuck_text 0 500 = replicate 49 CHR ''a'' @ ''.'' @ replicate 450 CHR ''a''"
  unfolding py_slice_def slice_bound_def stuck_text_def by simp

lemma stuck_period: "rfind CHR ''.'' (py_slice stuck_text 0 500) = 49"
proof -
  have "takeWhile (\<lambda>x. x \<noteq> CHR ''.'') (replicate 450 CHR ''a'' @ CHR ''.'' # replicate 49 CHR ''a'')
          = replicate 450 CHR ''a''"
    by (simp add: takeWhile_replicate_append)
  then show ?thesis unfolding stuck_window rfind_def by simp
qed

lemma stuck_newline: "rfind CHR 0x0A (py_slice stuck_text 0 500) = - 1"
  unfolding stuck_window rfind_def by simp

lemma stuck_piece: "py_strip (py_slice stuck_text 0 50) = replicate 49 CHR ''a'' @ ''.''"
proof -
  have "py_slice stuck_text 0 50 = replicate 49 CHR ''a'' @ ''.''"
    unfolding py_slice_def slice_bound_def stuck_text_def by simp
  moreover have "\<not> py_isspace CHR ''a''" "\<not> py_isspace CHR ''.''"
    unfolding py_isspace_def by simp_all
  ultimately show ?thesis
    unfolding py_strip_def py_lstrip_def py_rstrip_def
    by (simp add: numeral_eq_Suc)
qed

lemma stuck_step: "fst (chunk_step md5 stuck_text 500 50 (0, chunks)) = 0"
proof -
  have "length stuck_text = 501" unfolding stuck_text_def by simp
  then show ?thesis
    unfolding chunk_step_def by (simp add: stuck_period stuck_newline Let_def)
qed

lemma stuck_loop:
  assumes "chunk_loop md5 text chunk_size overlap st = Some result"
  shows "\<not> (text = stuck_text \<and> chunk_size = 500 \<and> overlap = 50 \<and> fst st = 0)"
proof (rule chunk_loop.raw_induct
    [where P = "\<lambda>md5 t cs ov st y. \<not> (t = stuck_text \<and> cs = 500 \<and> ov = 50 \<and> fst st = 0)",
      OF _ assms])
  fix loop :: "(string \<Rightarrow> string) \<Rightarrow> string \<Rightarrow> int \<Rightarrow> int \<Rightarrow> int \<times> chunk list \<Rightarrow> chunk list option"
  fix md5 t cs ov st y
  assume ih: "\<And>md5 t cs ov st y. loop md5 t cs ov st = Some y
                \<Longrightarrow> \<not> (t = stuck_text \<and> cs = 500 \<and> ov = 50 \<and> fst st = 0)"
  assume eq: "(if fst st < int (length t) then loop md5 t cs ov (chunk_step md5 t cs ov st)
               else Some (snd st)) = Some y"
  show "\<not> (t = stuck_text \<and> cs = 500 \<and> ov = 50 \<and> fst st = 0)"
  proof
    assume a: "t = stuck_text \<and> cs = 500 \<and> ov = 50 \<and> fst st = 0"
    then have "fst st < int (length t)" unfolding stuck_text_def by simp
    then have "loop md5 t cs ov (chunk_step md5 t cs ov st) = Some y"
      using eq by simp
    then have "\<not> (t = stuck_text \<and> cs = 500 \<and> ov = 50 \<and> fst (chunk_step md5 t cs ov st) = 0)"
      by (rule ih)
    then have "fst (chunk_step md5 stuck_text 500 50 st) \<noteq> 0" using a by simp
    moreover have "st = (0, snd st)" using a by (cases st) simp
    ultimately show False using stuck_step [of md5 "snd st"] by metis
  qed
qed

lemma chunk_text_short:
  "chunk_text md5 ''Hi.'' 500 50
     = Some [\<lparr>c_id = take 8 (md5 ''Hi.''), c_text = ''Hi.'', c_start = 0, c_end = 500, c_length = 3\<rparr>]"
proof -
  have "\<not> py_isspace CHR ''H''" "\<not> py_isspace CHR ''i''" "\<not> py_isspace CHR ''.''"
    unfolding py_isspace_def by simp_all
  then have p: "py_strip (py_slice ''Hi.'' 0 500) = ''Hi.''"
    unfolding py_strip_def py_lstrip_def py_rstrip_def py_slice_def slice_bound_def by simp
  have s: "chunk_step md5 ''Hi.'' 500 50 (0, [])
     = (500, [\<lparr>c_id = take 8 (md5 ''Hi.''), c_text = ''Hi.'', c_start = 0, c_end = 500, c_length = 3\<rparr>])"
    unfolding chunk_step_def by (simp add: p Let_def)
  show ?thesis
    unfolding chunk_text_def
    by (subst chunk_loop.simps, simp add: s, subst chunk_loop.simps, simp)
qed

text \<open>
  Claim C3 says that \<open>chunk_text\<close> with the default \<open>chunk_size = 500\<close> and
  \<open>overlap = 50\<close> returns for every text, also when the last sentence end of a window
  lies within its first \<open>overlap\<close> characters. The code does not: on the text of 501
  characters whose only full stop is the 50th character the chunk ends at position 50,
  the next start is \<open>50 - 50 = 0\<close> again, and the loop never ends.
\<close>

theorem chunk_text_does_not_return: "chunk_text md5 stuck_text 500 50 = None"
proof (rule ccontr)
  assume "chunk_text md5 stuck_text 500 50 \<noteq> None"
  then obtain result where "chunk_loop md5 stuck_text 500 50 (0, []) = Some result"
    unfolding chunk_text_def by auto
  from stuck_loop [OF this] show False by simp
qed

section \<open>SimpleVectorStore: adding, then searching\<close>

lemma py_lower_char_idem: "py_lower_char (py_lower_char c) = py_lower_char c"
  unfolding py_lower_char_def Let_def by (auto simp: of_char_of)

lemma py_lower_idem: "py_lower (py_lower s) = py_lower s"
  unfolding py_lower_def by (simp add: py_lower_char_idem)









section \<open>SimpleVectorStore: searching\<close>

subsection \<open>The index\<close>








subsection \<open>The scores\<close>












subsection \<open>The results\<close>












end
